theory Spec2Isabelle
  imports Main
begin

section \<open>Data model\<close>

text \<open>
  The records follow the TypeScript interfaces \<^verbatim>\<open>Iteration\<close> (IterationItem.tsx) and
  \<^verbatim>\<open>ExperimentModuleData\<close> (ExperimentModule.tsx). Both interfaces have fields called
  \<^verbatim>\<open>id\<close> and \<^verbatim>\<open>title\<close>; the iteration's are suffixed \<open>_it\<close> and the module's \<open>_mod\<close>.
  A JavaScript string is modelled as a \<^typ>\<open>string\<close>, one \<^typ>\<open>char\<close> per code unit, so
  that \<^verbatim>\<open>.length\<close> is \<^const>\<open>length\<close>.
\<close>

datatype Status = Completed | Adding | Draft

record Iteration =
  id_it :: string
  title_it :: string
  isSelected :: bool
  status :: Status

record ExperimentModuleData =
  id_mod :: string
  title_mod :: string
  isLocked :: bool
  isExpanded :: bool
  iterations :: "Iteration list"

datatype LengthOption = Short | Medium | VeryLong | Custom

section \<open>LengthSelectionModal: the title-length classifier\<close>

text \<open>
  \<^verbatim>\<open>
  const getLengthCategory = (title: string): LengthOption => {
    const titleLength = title.length;
    if (titleLength <= 15) { return "short"; }
    else if (titleLength < 35) { return "medium"; }
    else { return "very-long"; }
  };
  \<close>
\<close>

definition getLengthCategory :: "string \<Rightarrow> LengthOption" where
  "getLengthCategory title =
     (let titleLength = length title in
      if titleLength \<le> 15 then Short
      else if titleLength < 35 then Medium
      else VeryLong)"

section \<open>Number formatting\<close>

text \<open>
  The template literals \<^verbatim>\<open>`em-${modules.length + 1}`\<close> and \<^verbatim>\<open>`EM-${nextIterationNumber}`\<close>
  print a positive integer in decimal, without leading zeros.
\<close>

function numberToString :: "nat \<Rightarrow> string" where
  "numberToString n =
     (if n < 10 then [''0123456789'' ! n]
      else numberToString (n div 10) @ [''0123456789'' ! (n mod 10)])"
  by pat_completeness auto
termination
  by (relation "measure (\<lambda>n. n)") auto

declare numberToString.simps [simp del]

section \<open>ExperimentModuleApp: the updates of the module collection\<close>

text \<open>
  Every handler of \<^verbatim>\<open>ExperimentModuleApp\<close> changes the collection through
  \<^verbatim>\<open>setModules((prev) => ...)\<close>. The functions below are these arrow functions, with the
  variables of the enclosing handler as arguments and \<open>prev\<close> as the last one. A handler
  reads \<^verbatim>\<open>modules\<close> from the render it was created in. \<open>addNewModule\<close> and
  \<open>beginAddIteration\<close> below are the handlers on a settled render, where \<^verbatim>\<open>modules\<close> is the
  collection the update is applied to; the end of this section gives both with the two
  collections apart.
\<close>

type_synonym Modules = "ExperimentModuleData list"


definition handleToggleExpand :: "string \<Rightarrow> Modules \<Rightarrow> Modules" where
  "handleToggleExpand moduleId prev =
     map (\<lambda>module.
            if id_mod module = moduleId
            then module\<lparr>isExpanded := \<not> isExpanded module\<rparr>
            else module) prev"

definition handleToggleLock :: "string \<Rightarrow> Modules \<Rightarrow> Modules" where
  "handleToggleLock moduleId prev =
     map (\<lambda>module.
            if id_mod module = moduleId
            then module\<lparr>isLocked := \<not> isLocked module,
                         isExpanded := (if isLocked module then isExpanded module else False)\<rparr>
            else module) prev"

definition handleLockModule :: "string \<Rightarrow> Modules \<Rightarrow> Modules" where
  "handleLockModule moduleId prev =
     map (\<lambda>module.
            if id_mod module = moduleId
            then module\<lparr>isLocked := True, isExpanded := False\<rparr>
            else module) prev"

definition handleResetModule :: "string \<Rightarrow> Modules \<Rightarrow> Modules" where
  "handleResetModule moduleId prev =
     map (\<lambda>module.
            if id_mod module = moduleId
            then module\<lparr>iterations :=
                   map (\<lambda>iteration. iteration\<lparr>isSelected := False\<rparr>) (iterations module)\<rparr>
            else module) prev"

definition handleToggleSelection :: "string \<Rightarrow> string \<Rightarrow> Modules \<Rightarrow> Modules" where
  "handleToggleSelection moduleId iterationId prev =
     map (\<lambda>module.
            if id_mod module = moduleId
            then module\<lparr>iterations :=
                   map (\<lambda>iteration.
                          if id_it iteration = iterationId
                          then iteration\<lparr>isSelected := \<not> isSelected iteration\<rparr>
                          else iteration) (iterations module)\<rparr>
            else module) prev"

text \<open>
  \<^verbatim>\<open>getNextIterationNumber\<close>: \<^verbatim>\<open>modules.find\<close> yields the first module with the id, or
  \<^verbatim>\<open>undefined\<close>; \<^verbatim>\<open>(module?.iterations.length || 0) + 1\<close> then reads 0 for a missing
  module and for a length of 0.
\<close>

definition getNextIterationNumber :: "Modules \<Rightarrow> string \<Rightarrow> nat" where
  "getNextIterationNumber modules moduleId =
     (case find (\<lambda>m. id_mod m = moduleId) modules of
        None \<Rightarrow> 0
      | Some module \<Rightarrow>
          (if length (iterations module) = 0 then 0 else length (iterations module))) + 1"

text \<open>
  \<^verbatim>\<open>handleAddIterationComplete\<close> updates the collection twice. \<open>beginAddIteration\<close> is its
  first part: it computes \<^verbatim>\<open>newIterationId\<close> and applies the first \<^verbatim>\<open>setModules\<close>; the id is
  returned with the new collection, since the timer callback captures it.
  \<open>completeAddIteration\<close> is the update inside the \<^verbatim>\<open>setTimeout\<close> callback, with the captured
  \<^verbatim>\<open>currentModuleId\<close>, \<^verbatim>\<open>newIterationId\<close> and \<^verbatim>\<open>prompt\<close>. An optional argument is a
  \<^typ>\<open>string option\<close>; \<^verbatim>\<open>prompt || "Iteration title"\<close> takes the fallback for
  \<^verbatim>\<open>undefined\<close> and for the empty string.
\<close>

definition beginAddIteration :: "string \<Rightarrow> Modules \<Rightarrow> string \<times> Modules" where
  "beginAddIteration currentModuleId modules =
     (let nextIterationNumber = getNextIterationNumber modules currentModuleId;
          newIterationId = ''EM-'' @ numberToString nextIterationNumber
      in (newIterationId,
          map (\<lambda>module.
                 if id_mod module = currentModuleId
                 then module\<lparr>iterations := iterations module @
                        [\<lparr>id_it = newIterationId, title_it = ''Adding iteration...'',
                          isSelected = False, status = Adding\<rparr>]\<rparr>
                 else module) modules))"

definition promptOrDefault :: "string option \<Rightarrow> string" where
  "promptOrDefault prompt =
     (case prompt of
        None \<Rightarrow> ''Iteration title''
      | Some p \<Rightarrow> if p = [] then ''Iteration title'' else p)"

definition completeAddIteration :: "string \<Rightarrow> string \<Rightarrow> string option \<Rightarrow> Modules \<Rightarrow> Modules" where
  "completeAddIteration currentModuleId newIterationId prompt prev =
     map (\<lambda>module.
            if id_mod module = currentModuleId
            then module\<lparr>iterations :=
                   map (\<lambda>iteration.
                          if id_it iteration = newIterationId
                          then iteration\<lparr>title_it := promptOrDefault prompt,
                                         status := Completed\<rparr>
                          else iteration) (iterations module)\<rparr>
            else module) prev"

text \<open>The update of \<^verbatim>\<open>handleRemoveIteration\<close>, with the two current ids as arguments.\<close>

definition removeIteration :: "string \<Rightarrow> string \<Rightarrow> Modules \<Rightarrow> Modules" where
  "removeIteration currentModuleId currentIterationId prev =
     map (\<lambda>module.
            if id_mod module = currentModuleId
            then module\<lparr>iterations :=
                   filter (\<lambda>iteration. id_it iteration \<noteq> currentIterationId)
                     (iterations module)\<rparr>
            else module) prev"

subsection \<open>The render's collection and the updater's\<close>



section \<open>ExperimentModuleApp: the component state and its handlers\<close>

record App =
  modules :: Modules
  showAddModal :: bool
  showLengthModal :: bool
  currentModuleId :: string
  currentIterationId :: string
  selectedLength :: LengthOption
  isProcessing :: bool

definition initialApp :: App where
  "initialApp =
     \<lparr>modules = [\<lparr>id_mod = ''em-1'', title_mod = ''Experiment Module'',
                   isLocked = False, isExpanded = False, iterations = []\<rparr>],
      showAddModal = False, showLengthModal = False,
      currentModuleId = [], currentIterationId = [],
      selectedLength = Short, isProcessing = False\<rparr>"

definition handleAddIteration :: "string \<Rightarrow> App \<Rightarrow> App" where
  "handleAddIteration moduleId app = app\<lparr>currentModuleId := moduleId, showAddModal := True\<rparr>"

text \<open>
  The pending \<^verbatim>\<open>setTimeout\<close> callback is returned as the triple of the values it captured;
  \<open>addIterationTimeout\<close> runs it, 2000 ms later, on the state of that moment.
\<close>

type_synonym Timeout = "string \<times> string \<times> string option"

definition handleAddIterationComplete :: "string option \<Rightarrow> App \<Rightarrow> App \<times> Timeout" where
  "handleAddIterationComplete prompt app =
     (let (newIterationId, modules') = beginAddIteration (currentModuleId app) (modules app)
      in (app\<lparr>modules := modules', showAddModal := False, isProcessing := True\<rparr>,
          (currentModuleId app, newIterationId, prompt)))"

definition addIterationTimeout :: "Timeout \<Rightarrow> App \<Rightarrow> App" where
  "addIterationTimeout t app =
     (case t of (moduleId, newIterationId, prompt) \<Rightarrow>
        app\<lparr>modules := completeAddIteration moduleId newIterationId prompt (modules app),
            isProcessing := False\<rparr>)"



section \<open>AddIterationModal: the value handed to the confirmation callback\<close>

text \<open>
  \<^verbatim>\<open>onConfirm(showPromptInput ? prompt.trim() || undefined : undefined)\<close>.
  \<^verbatim>\<open>String.prototype.trim\<close> strips white space and line terminators from both ends; among the
  code units a \<^typ>\<open>char\<close> can hold these are TAB, LF, VT, FF, CR, SP and NBSP.
\<close>

definition isWhiteSpace :: "char \<Rightarrow> bool" where
  "isWhiteSpace c = ((of_char c :: nat) \<in> {9, 10, 11, 12, 13, 32, 160})"

definition trim :: "string \<Rightarrow> string" where
  "trim s = rev (dropWhile isWhiteSpace (rev (dropWhile isWhiteSpace s)))"

definition handleSubmit :: "bool \<Rightarrow> string \<Rightarrow> string option" where
  "handleSubmit showPromptInput prompt =
     (if showPromptInput
      then (let t = trim prompt in if t = [] then None else Some t)
      else None)"

section \<open>Renders and histories of store operations\<close>
















section \<open>Example collections\<close>

text \<open>
  Two modules: the first locked, holding a completed, selected iteration and a pending one;
  the second fresh.
\<close>

definition sampleModules :: Modules where
  "sampleModules =
     [\<lparr>id_mod = ''em-1'', title_mod = ''Experiment Module'', isLocked = True, isExpanded = True,
       iterations =
         [\<lparr>id_it = ''EM-1'', title_it = ''First'', isSelected = True, status = Completed\<rparr>,
          \<lparr>id_it = ''EM-2'', title_it = ''Adding iteration...'', isSelected = False,
            status = Adding\<rparr>]\<rparr>,
      \<lparr>id_mod = ''em-2'', title_mod = ''Experiment Module'', isLocked = False, isExpanded = True,
       iterations = []\<rparr>]"

text \<open>
  The collection reached from the initial one by adding two iterations, completing the
  second, removing the first and adding a third, each update applied to the result of the
  one before; and the same steps as a history.
\<close>

definition duplicateIdModules :: Modules where
  "duplicateIdModules =
     snd (beginAddIteration ''em-1''
       (removeIteration ''em-1'' ''EM-1''
         (completeAddIteration ''em-1'' ''EM-2'' None
           (snd (beginAddIteration ''em-1''
             (snd (beginAddIteration ''em-1'' (modules initialApp))))))))"





section \<open>Auxiliary facts\<close>

subsection \<open>Updates seen through one position of the collection\<close>

lemma handleToggleLock_nth:
  "i < length ms \<Longrightarrow> handleToggleLock moduleId ms ! i =
     (if id_mod (ms ! i) = moduleId
      then (ms ! i)\<lparr>isLocked := \<not> isLocked (ms ! i),
                    isExpanded := (if isLocked (ms ! i) then isExpanded (ms ! i) else False)\<rparr>
      else ms ! i)"
  by (simp add: handleToggleLock_def)

lemma handleToggleLock_length: "length (handleToggleLock moduleId ms) = length ms"
  by (simp add: handleToggleLock_def)

lemma handleToggleSelection_nth:
  "i < length ms \<Longrightarrow> handleToggleSelection moduleId iterationId ms ! i =
     (if id_mod (ms ! i) = moduleId
      then (ms ! i)\<lparr>iterations :=
             map (\<lambda>iteration.
                    if id_it iteration = iterationId
                    then iteration\<lparr>isSelected := \<not> isSelected iteration\<rparr>
                    else iteration) (iterations (ms ! i))\<rparr>
      else ms ! i)"
  by (simp add: handleToggleSelection_def)

lemma handleResetModule_nth:
  "i < length ms \<Longrightarrow> handleResetModule moduleId ms ! i =
     (if id_mod (ms ! i) = moduleId
      then (ms ! i)\<lparr>iterations :=
             map (\<lambda>iteration. iteration\<lparr>isSelected := False\<rparr>) (iterations (ms ! i))\<rparr>
      else ms ! i)"
  by (simp add: handleResetModule_def)

lemma beginAddIteration_nth:
  "i < length ms \<Longrightarrow> snd (beginAddIteration moduleId ms) ! i =
     (if id_mod (ms ! i) = moduleId
      then (ms ! i)\<lparr>iterations := iterations (ms ! i) @
             [\<lparr>id_it = fst (beginAddIteration moduleId ms),
               title_it = ''Adding iteration...'', isSelected = False, status = Adding\<rparr>]\<rparr>
      else ms ! i)"
  by (simp add: beginAddIteration_def Let_def)

lemma completeAddIteration_nth:
  "i < length ms \<Longrightarrow> completeAddIteration moduleId iterationId prompt ms ! i =
     (if id_mod (ms ! i) = moduleId
      then (ms ! i)\<lparr>iterations :=
             map (\<lambda>iteration.
                    if id_it iteration = iterationId
                    then iteration\<lparr>title_it := promptOrDefault prompt, status := Completed\<rparr>
                    else iteration) (iterations (ms ! i))\<rparr>
      else ms ! i)"
  by (simp add: completeAddIteration_def)

lemma removeIteration_nth:
  "i < length ms \<Longrightarrow> removeIteration moduleId iterationId ms ! i =
     (if id_mod (ms ! i) = moduleId
      then (ms ! i)\<lparr>iterations :=
             filter (\<lambda>iteration. id_it iteration \<noteq> iterationId) (iterations (ms ! i))\<rparr>
      else ms ! i)"
  by (simp add: removeIteration_def)

subsection \<open>Updates applied twice\<close>

lemma iterations_update_same: "xs = iterations m \<Longrightarrow> m\<lparr>iterations := xs\<rparr> = m"
  by simp

lemma handleToggleSelection_twice:
  "handleToggleSelection moduleId iterationId (handleToggleSelection moduleId iterationId ms) = ms"
  unfolding handleToggleSelection_def
  by (auto simp: o_def intro!: map_idI iterations_update_same)

lemma handleResetModule_twice:
  "handleResetModule moduleId (handleResetModule moduleId ms) = handleResetModule moduleId ms"
  unfolding handleResetModule_def
  by (auto simp: o_def)

lemma removeIteration_twice:
  "removeIteration moduleId iterationId (removeIteration moduleId iterationId ms) =
   removeIteration moduleId iterationId ms"
  unfolding removeIteration_def
  by (auto simp: o_def)

subsection \<open>Ids that match nothing\<close>

lemma map_modules_unmatched:
  "moduleId \<notin> id_mod ` set ms \<Longrightarrow>
   map (\<lambda>module. if id_mod module = moduleId then f module else module) ms = ms"
  by (induction ms) auto

lemma map_iterations_unmatched:
  "iterationId \<notin> id_it ` set its \<Longrightarrow>
   map (\<lambda>iteration. if id_it iteration = iterationId then f iteration else iteration) its = its"
  by (induction its) auto

lemma filter_iterations_unmatched:
  "iterationId \<notin> id_it ` set its \<Longrightarrow>
   filter (\<lambda>iteration. id_it iteration \<noteq> iterationId) its = its"
  by (induction its) auto

lemma missing_module_no_op:
  assumes "moduleId \<notin> id_mod ` set ms"
  shows "handleToggleExpand moduleId ms = ms"
    and "handleToggleLock moduleId ms = ms"
    and "handleLockModule moduleId ms = ms"
    and "handleResetModule moduleId ms = ms"
    and "handleToggleSelection moduleId iterationId ms = ms"
    and "snd (beginAddIteration moduleId ms) = ms"
    and "completeAddIteration moduleId iterationId prompt ms = ms"
    and "removeIteration moduleId iterationId ms = ms"
  using assms
  by (simp_all add: handleToggleExpand_def handleToggleLock_def handleLockModule_def
      handleResetModule_def handleToggleSelection_def beginAddIteration_def
      completeAddIteration_def removeIteration_def map_modules_unmatched Let_def)

lemma missing_iteration_no_op:
  assumes "\<forall>m \<in> set ms. id_mod m = moduleId \<longrightarrow> iterationId \<notin> id_it ` set (iterations m)"
  shows "handleToggleSelection moduleId iterationId ms = ms"
    and "completeAddIteration moduleId iterationId prompt ms = ms"
    and "removeIteration moduleId iterationId ms = ms"
  using assms
  unfolding handleToggleSelection_def completeAddIteration_def removeIteration_def
  by (auto intro!: map_idI simp: map_iterations_unmatched filter_iterations_unmatched)

subsection \<open>Removal as a filter\<close>

lemma filter_single_match:
  "id_it it = iterationId \<Longrightarrow> iterationId \<notin> id_it ` set xs \<Longrightarrow>
   iterationId \<notin> id_it ` set ys \<Longrightarrow>
   filter (\<lambda>iteration. id_it iteration \<noteq> iterationId) (xs @ it # ys) = xs @ ys"
  by (simp add: filter_iterations_unmatched)

lemma length_filter_removed:
  "length (filter (\<lambda>iteration. id_it iteration \<noteq> iterationId) its) +
   length (filter (\<lambda>iteration. id_it iteration = iterationId) its) = length its"
  by (induction its) auto

subsection \<open>Titles and prompts\<close>

lemma trim_all_white: "\<forall>c \<in> set typed. isWhiteSpace c \<Longrightarrow> trim typed = []"
  by (auto simp: trim_def dest: set_dropWhileD)

lemma promptOrDefault_nonempty: "promptOrDefault prompt \<noteq> []"
  by (simp add: promptOrDefault_def split: option.splits)

lemma handleSubmit_nonempty: "handleSubmit showPromptInput typed \<noteq> Some []"
  by (simp add: handleSubmit_def Let_def)

subsection \<open>Decimal numerals are injective\<close>

lemma numberToString_digit: "n < 10 \<Longrightarrow> numberToString n = [''0123456789'' ! n]"
  by (simp add: numberToString.simps)







subsection \<open>The next iteration number when module ids are unique\<close>

lemma find_unique:
  "distinct (map f xs) \<Longrightarrow> x \<in> set xs \<Longrightarrow> find (\<lambda>y. f y = f x) xs = Some x"
  by (induction xs) (auto simp: image_iff)

lemma getNextIterationNumber_unique:
  "distinct (map id_mod ms) \<Longrightarrow> m \<in> set ms \<Longrightarrow>
   getNextIterationNumber ms (id_mod m) = length (iterations m) + 1"
  by (simp add: getNextIterationNumber_def find_unique)

subsection \<open>Consecutive ids are kept by every update but a removal\<close>














subsection \<open>Ids created from a render of the same shape\<close>








subsection \<open>The example histories, evaluated\<close>

lemma duplicateIdModules_eq:
  "duplicateIdModules =
     [\<lparr>id_mod = ''em-1'', title_mod = ''Experiment Module'', isLocked = False,
       isExpanded = False,
       iterations =
         [\<lparr>id_it = ''EM-2'', title_it = ''Iteration title'', isSelected = False,
            status = Completed\<rparr>,
          \<lparr>id_it = ''EM-2'', title_it = ''Adding iteration...'', isSelected = False,
            status = Adding\<rparr>]\<rparr>]"
  by (simp add: duplicateIdModules_def initialApp_def beginAddIteration_def
      getNextIterationNumber_def numberToString_digit
      completeAddIteration_def removeIteration_def promptOrDefault_def Let_def)





section \<open>Verified properties\<close>

subsection \<open>Adding an iteration\<close>

text \<open>
  Claim C1, as stated, at the initial collection. The claim gives the first iteration of a
  fresh module the id "1" and completes it under that id. The code builds the id with the
  prefix "EM-": the first id is "EM-1", and \<open>completeAddIteration\<close> with the id "1" finds
  nothing, so the iteration stays pending under its placeholder title.
\<close>

theorem beginAddIteration_id_counterexample:
  "fst (beginAddIteration ''em-1'' (modules initialApp)) = ''EM-1'' \<and>
   fst (beginAddIteration ''em-1'' (modules initialApp)) \<noteq> ''1'' \<and>
   iterations (completeAddIteration ''em-1'' ''1'' (Some ''My Title'')
                 (snd (beginAddIteration ''em-1'' (modules initialApp))) ! 0) =
     [\<lparr>id_it = ''EM-1'', title_it = ''Adding iteration...'', isSelected = False,
       status = Adding\<rparr>]"
  by (simp add: initialApp_def beginAddIteration_def getNextIterationNumber_def
      numberToString_digit completeAddIteration_def Let_def)

text \<open>
  Claim C1, amended. In a collection whose module ids are unique, \<open>beginAddIteration\<close> appends
  to the named module exactly one iteration, whose id is "EM-" followed by the decimal of
  the module's current iteration count plus one, with the placeholder title
  "Adding iteration...", \<open>isSelected = False\<close> and status \<open>Adding\<close>; every other module is
  unchanged. In a fresh module the id is "EM-1", and a subsequent \<open>completeAddIteration\<close> with
  that id and the title "My Title" yields the single iteration
  \<open>{id: "EM-1", title: "My Title", status: completed, isSelected: false}\<close>. The last conjunct
  runs the same scenario through the handlers and the timer callback of the component.
\<close>

theorem beginAddIteration_appends_pending:
  "(distinct (map id_mod ms) \<and> i < length ms \<and> id_mod (ms ! i) = moduleId \<longrightarrow>
      fst (beginAddIteration moduleId ms) =
        ''EM-'' @ numberToString (length (iterations (ms ! i)) + 1) \<and>
      iterations (snd (beginAddIteration moduleId ms) ! i) =
        iterations (ms ! i) @
          [\<lparr>id_it = fst (beginAddIteration moduleId ms), title_it = ''Adding iteration...'',
            isSelected = False, status = Adding\<rparr>] \<and>
      (iterations (ms ! i) = [] \<longrightarrow>
         fst (beginAddIteration moduleId ms) = ''EM-1'' \<and>
         iterations (completeAddIteration moduleId ''EM-1'' (Some ''My Title'')
                       (snd (beginAddIteration moduleId ms)) ! i) =
           [\<lparr>id_it = ''EM-1'', title_it = ''My Title'', isSelected = False,
             status = Completed\<rparr>])) \<and>
   (k < length ms \<and> id_mod (ms ! k) \<noteq> moduleId \<longrightarrow>
      snd (beginAddIteration moduleId ms) ! k = ms ! k) \<and>
   length (snd (beginAddIteration moduleId ms)) = length ms \<and>
   modules (addIterationTimeout
              (snd (handleAddIterationComplete (Some ''My Title'')
                      (handleAddIteration ''em-1'' initialApp)))
              (fst (handleAddIterationComplete (Some ''My Title'')
                      (handleAddIteration ''em-1'' initialApp)))) =
     [\<lparr>id_mod = ''em-1'', title_mod = ''Experiment Module'', isLocked = False,
       isExpanded = False,
       iterations = [\<lparr>id_it = ''EM-1'', title_it = ''My Title'', isSelected = False,
                       status = Completed\<rparr>]\<rparr>]"
proof -
  have new_id: "fst (beginAddIteration moduleId ms) =
      ''EM-'' @ numberToString (length (iterations (ms ! i)) + 1)"
    if "distinct (map id_mod ms)" "i < length ms" "id_mod (ms ! i) = moduleId"
    using that getNextIterationNumber_unique [of ms "ms ! i"]
    by (auto simp: beginAddIteration_def Let_def)
  have appended: "iterations (snd (beginAddIteration moduleId ms) ! i) =
      iterations (ms ! i) @
        [\<lparr>id_it = fst (beginAddIteration moduleId ms), title_it = ''Adding iteration...'',
          isSelected = False, status = Adding\<rparr>]"
    if "i < length ms" "id_mod (ms ! i) = moduleId"
    using that by (simp add: beginAddIteration_nth)
  have len: "length (snd (beginAddIteration moduleId ms)) = length ms"
    by (simp add: beginAddIteration_def Let_def)
  have fresh: "fst (beginAddIteration moduleId ms) = ''EM-1'' \<and>
      iterations (completeAddIteration moduleId ''EM-1'' (Some ''My Title'')
                    (snd (beginAddIteration moduleId ms)) ! i) =
        [\<lparr>id_it = ''EM-1'', title_it = ''My Title'', isSelected = False,
          status = Completed\<rparr>]"
    if "distinct (map id_mod ms)" "i < length ms" "id_mod (ms ! i) = moduleId"
      "iterations (ms ! i) = []"
  proof -
    from new_id [OF that(1-3)] that(4)
    have first: "fst (beginAddIteration moduleId ms) = ''EM-1''"
      by (simp add: numberToString_digit)
    show ?thesis
      using first that(2-4) len
      by (simp add: completeAddIteration_nth beginAddIteration_nth promptOrDefault_def)
  qed
  have others: "snd (beginAddIteration moduleId ms) ! k = ms ! k"
    if "k < length ms" "id_mod (ms ! k) \<noteq> moduleId"
    using that by (simp add: beginAddIteration_nth)
  have scenario: "modules (addIterationTimeout
              (snd (handleAddIterationComplete (Some ''My Title'')
                      (handleAddIteration ''em-1'' initialApp)))
              (fst (handleAddIterationComplete (Some ''My Title'')
                      (handleAddIteration ''em-1'' initialApp)))) =
     [\<lparr>id_mod = ''em-1'', title_mod = ''Experiment Module'', isLocked = False,
       isExpanded = False,
       iterations = [\<lparr>id_it = ''EM-1'', title_it = ''My Title'', isSelected = False,
                       status = Completed\<rparr>]\<rparr>]"
    by (simp add: addIterationTimeout_def handleAddIterationComplete_def
        handleAddIteration_def initialApp_def beginAddIteration_def
        getNextIterationNumber_def numberToString_digit completeAddIteration_def
        promptOrDefault_def Let_def)
  show ?thesis
    using new_id appended fresh others len scenario by blast
qed

theorem beginAddIteration_appends_pending_witness:
  "distinct (map id_mod sampleModules) \<and> 1 < length sampleModules \<and>
   id_mod (sampleModules ! 1) = ''em-2'' \<and> iterations (sampleModules ! 1) = [] \<and>
   fst (beginAddIteration ''em-2'' sampleModules) = ''EM-1'' \<and>
   iterations (snd (beginAddIteration ''em-2'' sampleModules) ! 1) =
     [\<lparr>id_it = ''EM-1'', title_it = ''Adding iteration...'', isSelected = False,
       status = Adding\<rparr>] \<and>
   iterations (completeAddIteration ''em-2'' ''EM-1'' (Some ''My Title'')
                 (snd (beginAddIteration ''em-2'' sampleModules)) ! 1) =
     [\<lparr>id_it = ''EM-1'', title_it = ''My Title'', isSelected = False,
       status = Completed\<rparr>] \<and>
   0 < length sampleModules \<and> id_mod (sampleModules ! 0) \<noteq> ''em-2'' \<and>
   snd (beginAddIteration ''em-2'' sampleModules) ! 0 = sampleModules ! 0"
  using beginAddIteration_appends_pending
    [where ms = sampleModules and i = 1 and moduleId = "''em-2''" and k = 0]
  by (simp add: sampleModules_def beginAddIteration_def getNextIterationNumber_def
      numberToString_digit completeAddIteration_def promptOrDefault_def Let_def)

subsection \<open>Locking\<close>

text \<open>
  Claim C2. For every module of the collection, \<open>toggleLock\<close> applied twice returns
  \<open>isLocked\<close> to its original value; on an unlocked module one \<open>toggleLock\<close> sets
  \<open>isLocked\<close> and clears \<open>isExpanded\<close>; on a locked module it clears \<open>isLocked\<close> and leaves
  \<open>isExpanded\<close> as it was.
\<close>

theorem handleToggleLock_twice:
  "i < length ms \<and> id_mod (ms ! i) = moduleId \<longrightarrow>
     isLocked (handleToggleLock moduleId (handleToggleLock moduleId ms) ! i) =
       isLocked (ms ! i) \<and>
     (\<not> isLocked (ms ! i) \<longrightarrow>
        isLocked (handleToggleLock moduleId ms ! i) \<and>
        \<not> isExpanded (handleToggleLock moduleId ms ! i)) \<and>
     (isLocked (ms ! i) \<longrightarrow>
        \<not> isLocked (handleToggleLock moduleId ms ! i) \<and>
        isExpanded (handleToggleLock moduleId ms ! i) = isExpanded (ms ! i))"
  by (simp add: handleToggleLock_nth handleToggleLock_length)

theorem handleToggleLock_twice_witness:
  "1 < length sampleModules \<and> id_mod (sampleModules ! 1) = ''em-2'' \<and>
   \<not> isLocked (sampleModules ! 1) \<and> isExpanded (sampleModules ! 1) \<and>
   isLocked (handleToggleLock ''em-2'' sampleModules ! 1) \<and>
   \<not> isExpanded (handleToggleLock ''em-2'' sampleModules ! 1) \<and>
   \<not> isLocked (handleToggleLock ''em-2'' (handleToggleLock ''em-2'' sampleModules) ! 1) \<and>
   \<not> isExpanded (handleToggleLock ''em-2'' (handleToggleLock ''em-2'' sampleModules) ! 1) \<and>
   0 < length sampleModules \<and> id_mod (sampleModules ! 0) = ''em-1'' \<and>
   isLocked (sampleModules ! 0) \<and> isExpanded (sampleModules ! 0) \<and>
   \<not> isLocked (handleToggleLock ''em-1'' sampleModules ! 0) \<and>
   isExpanded (handleToggleLock ''em-1'' sampleModules ! 0) \<and>
   isLocked (handleToggleLock ''em-1'' (handleToggleLock ''em-1'' sampleModules) ! 0)"
  using handleToggleLock_twice [where ms = sampleModules and i = 1 and moduleId = "''em-2''"]
    handleToggleLock_twice [where ms = sampleModules and i = 0 and moduleId = "''em-1''"]
  by (simp add: sampleModules_def handleToggleLock_def)

subsection \<open>Completing an iteration\<close>

text \<open>
  Claim C3, as stated, at a present id and the empty title. The claim has
  \<open>completeAddIteration\<close> set the title to the supplied title whenever the id is present. In
  the example the pending iteration "EM-2" of module "em-1" is completed with the supplied
  title \<open>""\<close>: its title becomes "Iteration title", not the supplied empty string.
\<close>

theorem completeAddIteration_empty_title_counterexample:
  "id_mod (sampleModules ! 0) = ''em-1'' \<and>
   id_it (iterations (sampleModules ! 0) ! 1) = ''EM-2'' \<and>
   title_it (iterations (completeAddIteration ''em-1'' ''EM-2'' (Some []) sampleModules ! 0) ! 1)
     = ''Iteration title'' \<and>
   title_it (iterations (completeAddIteration ''em-1'' ''EM-2'' (Some []) sampleModules ! 0) ! 1)
     \<noteq> []"
  by (simp add: sampleModules_def completeAddIteration_def promptOrDefault_def)

text \<open>
  Claim C3, amended. For every collection, \<open>completeAddIteration\<close> with an iteration id that
  is absent from the named module leaves the collection unchanged; it never changes the number
  of modules or the number of iterations of any module, so nothing is created again. When the
  id is present, the iteration's status becomes \<open>Completed\<close>, and its title becomes the
  supplied title when that title is a non-empty string.
\<close>

theorem completeAddIteration_guarded:
  "((\<forall>m \<in> set ms. id_mod m = moduleId \<longrightarrow> iterationId \<notin> id_it ` set (iterations m)) \<longrightarrow>
      completeAddIteration moduleId iterationId prompt ms = ms) \<and>
   length (completeAddIteration moduleId iterationId prompt ms) = length ms \<and>
   (i < length ms \<longrightarrow>
      length (iterations (completeAddIteration moduleId iterationId prompt ms ! i)) =
        length (iterations (ms ! i))) \<and>
   (i < length ms \<and> id_mod (ms ! i) = moduleId \<and>
    j < length (iterations (ms ! i)) \<and> id_it (iterations (ms ! i) ! j) = iterationId \<longrightarrow>
      status (iterations (completeAddIteration moduleId iterationId prompt ms ! i) ! j) =
        Completed \<and>
      (prompt = Some t \<and> t \<noteq> [] \<longrightarrow>
         title_it (iterations (completeAddIteration moduleId iterationId prompt ms ! i) ! j) = t))"
  using missing_iteration_no_op(2) [of ms moduleId iterationId prompt]
  by (simp add: completeAddIteration_nth promptOrDefault_def) (simp add: completeAddIteration_def)

theorem completeAddIteration_guarded_witness:
  "\<not> list_ex (\<lambda>m. id_mod m = ''em-1'' \<and> ''EM-7'' \<in> id_it ` set (iterations m)) sampleModules \<and>
   completeAddIteration ''em-1'' ''EM-7'' (Some ''My Title'') sampleModules = sampleModules \<and>
   0 < length sampleModules \<and> id_mod (sampleModules ! 0) = ''em-1'' \<and>
   1 < length (iterations (sampleModules ! 0)) \<and>
   id_it (iterations (sampleModules ! 0) ! 1) = ''EM-2'' \<and>
   length (iterations (completeAddIteration ''em-1'' ''EM-2'' (Some ''My Title'')
                         sampleModules ! 0)) = 2 \<and>
   status (iterations (completeAddIteration ''em-1'' ''EM-2'' (Some ''My Title'')
                         sampleModules ! 0) ! 1) = Completed \<and>
   title_it (iterations (completeAddIteration ''em-1'' ''EM-2'' (Some ''My Title'')
                           sampleModules ! 0) ! 1) = ''My Title''"
  using completeAddIteration_guarded
      [where ms = sampleModules and moduleId = "''em-1''" and iterationId = "''EM-7''"
         and prompt = "Some ''My Title''" and i = 0 and j = 1 and t = "''My Title''"]
    completeAddIteration_guarded
      [where ms = sampleModules and moduleId = "''em-1''" and iterationId = "''EM-2''"
         and prompt = "Some ''My Title''" and i = 0 and j = 1 and t = "''My Title''"]
  by (simp add: sampleModules_def)

subsection \<open>The title-length classifier\<close>

text \<open>
  Claim C4. For every title, a length of at most 15 classifies as short, a length strictly
  between 15 and 35 as medium, and every other length as very-long. In particular the
  5-character title "Short" and a 15-character title are short, titles of 16 and of 34
  characters are medium, and a title of 35 characters is very-long.
\<close>

theorem getLengthCategory_thresholds:
  "(length title \<le> 15 \<longrightarrow> getLengthCategory title = Short) \<and>
   (15 < length title \<and> length title < 35 \<longrightarrow> getLengthCategory title = Medium) \<and>
   (\<not> length title \<le> 15 \<and> \<not> (15 < length title \<and> length title < 35) \<longrightarrow>
      getLengthCategory title = VeryLong) \<and>
   getLengthCategory ''Short'' = Short \<and>
   getLengthCategory ''exactly15chars!'' = Short \<and>
   getLengthCategory ''sixteen chars ok'' = Medium \<and>
   getLengthCategory ''a title of thirty-four characters.'' = Medium \<and>
   getLengthCategory ''a title of thirty-five characters..'' = VeryLong"
  by (simp add: getLengthCategory_def)

theorem getLengthCategory_thresholds_witness:
  "length ''Short'' \<le> 15 \<and> getLengthCategory ''Short'' = Short \<and>
   15 < length ''sixteen chars ok'' \<and> length ''sixteen chars ok'' < 35 \<and>
   getLengthCategory ''sixteen chars ok'' = Medium \<and>
   \<not> length (replicate 40 CHR ''x'') \<le> 15 \<and>
   \<not> (15 < length (replicate 40 CHR ''x'') \<and> length (replicate 40 CHR ''x'') < 35) \<and>
   getLengthCategory (replicate 40 CHR ''x'') = VeryLong"
  using getLengthCategory_thresholds [of "''Short''"]
    getLengthCategory_thresholds [of "''sixteen chars ok''"]
    getLengthCategory_thresholds [of "replicate 40 CHR ''x''"]
  by simp

subsection \<open>Removing an iteration\<close>

text \<open>
  Claim C5, as stated, at a collection with a duplicated id. The claim has \<open>removeIteration\<close>
  remove exactly one entry. After the history that adds two iterations, removes the first
  and adds another, module "em-1" holds two entries with the id "EM-2"; one
  \<open>removeIteration\<close> of "EM-2" removes both.
\<close>

theorem removeIteration_duplicate_counterexample:
  "length (iterations (duplicateIdModules ! 0)) = 2 \<and>
   id_mod (duplicateIdModules ! 0) = ''em-1'' \<and>
   id_it (iterations (duplicateIdModules ! 0) ! 0) = ''EM-2'' \<and>
   id_it (iterations (duplicateIdModules ! 0) ! 1) = ''EM-2'' \<and>
   length (iterations (removeIteration ''em-1'' ''EM-2'' duplicateIdModules ! 0)) = 0"
  by (simp add: duplicateIdModules_eq removeIteration_def)

text \<open>
  Claim C5, amended. For every module and iteration id, \<open>removeIteration\<close> removes from the
  named module every entry whose id matches, whatever its status: no entry with the id is
  left, and the sequence shrinks by the number of entries that carried it. When exactly
  one entry carries the id, exactly that entry is removed and the others keep their order.
  Other modules are unchanged, and a second \<open>removeIteration\<close> with the same id changes
  nothing more.
\<close>

theorem removeIteration_removes_matching:
  "length (removeIteration moduleId iterationId ms) = length ms \<and>
   (i < length ms \<and> id_mod (ms ! i) \<noteq> moduleId \<longrightarrow>
      removeIteration moduleId iterationId ms ! i = ms ! i) \<and>
   (i < length ms \<and> id_mod (ms ! i) = moduleId \<longrightarrow>
      iterationId \<notin> id_it ` set (iterations (removeIteration moduleId iterationId ms ! i)) \<and>
      length (iterations (removeIteration moduleId iterationId ms ! i)) +
        length (filter (\<lambda>iteration. id_it iteration = iterationId) (iterations (ms ! i))) =
        length (iterations (ms ! i)) \<and>
      (iterations (ms ! i) = xs @ it # ys \<and> id_it it = iterationId \<and>
       iterationId \<notin> id_it ` set xs \<and> iterationId \<notin> id_it ` set ys \<longrightarrow>
         iterations (removeIteration moduleId iterationId ms ! i) = xs @ ys)) \<and>
   removeIteration moduleId iterationId (removeIteration moduleId iterationId ms) =
     removeIteration moduleId iterationId ms"
proof -
  have len: "length (removeIteration moduleId iterationId ms) = length ms"
    by (simp add: removeIteration_def)
  have other: "i < length ms \<and> id_mod (ms ! i) \<noteq> moduleId \<longrightarrow>
      removeIteration moduleId iterationId ms ! i = ms ! i"
    by (simp add: removeIteration_nth)
  have same: "i < length ms \<and> id_mod (ms ! i) = moduleId \<longrightarrow>
      iterations (removeIteration moduleId iterationId ms ! i) =
        filter (\<lambda>iteration. id_it iteration \<noteq> iterationId) (iterations (ms ! i))"
    by (simp add: removeIteration_nth)
  have gone: "i < length ms \<and> id_mod (ms ! i) = moduleId \<longrightarrow>
      iterationId \<notin> id_it ` set (iterations (removeIteration moduleId iterationId ms ! i))"
    using same by auto
  have count: "i < length ms \<and> id_mod (ms ! i) = moduleId \<longrightarrow>
      length (iterations (removeIteration moduleId iterationId ms ! i)) +
        length (filter (\<lambda>iteration. id_it iteration = iterationId) (iterations (ms ! i))) =
        length (iterations (ms ! i))"
    using same length_filter_removed [of iterationId "iterations (ms ! i)"] by simp
  have one: "i < length ms \<and> id_mod (ms ! i) = moduleId \<longrightarrow>
      (iterations (ms ! i) = xs @ it # ys \<and> id_it it = iterationId \<and>
       iterationId \<notin> id_it ` set xs \<and> iterationId \<notin> id_it ` set ys \<longrightarrow>
         iterations (removeIteration moduleId iterationId ms ! i) = xs @ ys)"
    using same filter_single_match [of it iterationId xs ys] by simp
  show ?thesis
    using len other gone count one removeIteration_twice [of moduleId iterationId ms]
    by blast
qed

theorem removeIteration_removes_matching_witness:
  "0 < length sampleModules \<and> id_mod (sampleModules ! 0) = ''em-1'' \<and>
   iterations (sampleModules ! 0) =
     [] @ \<lparr>id_it = ''EM-1'', title_it = ''First'', isSelected = True, status = Completed\<rparr> #
       [\<lparr>id_it = ''EM-2'', title_it = ''Adding iteration...'', isSelected = False,
         status = Adding\<rparr>] \<and>
   iterations (removeIteration ''em-1'' ''EM-1'' sampleModules ! 0) =
     [\<lparr>id_it = ''EM-2'', title_it = ''Adding iteration...'', isSelected = False,
       status = Adding\<rparr>] \<and>
   iterations (removeIteration ''em-1'' ''EM-2'' sampleModules ! 0) =
     [\<lparr>id_it = ''EM-1'', title_it = ''First'', isSelected = True, status = Completed\<rparr>] \<and>
   1 < length sampleModules \<and> id_mod (sampleModules ! 1) \<noteq> ''em-1'' \<and>
   removeIteration ''em-1'' ''EM-1'' sampleModules ! 1 = sampleModules ! 1 \<and>
   removeIteration ''em-1'' ''EM-1'' (removeIteration ''em-1'' ''EM-1'' sampleModules) =
     removeIteration ''em-1'' ''EM-1'' sampleModules"
  using removeIteration_removes_matching
      [where ms = sampleModules and moduleId = "''em-1''" and iterationId = "''EM-1''"
         and i = 0 and xs = "[]"
         and it = "\<lparr>id_it = ''EM-1'', title_it = ''First'', isSelected = True,
                     status = Completed\<rparr>"
         and ys = "[\<lparr>id_it = ''EM-2'', title_it = ''Adding iteration...'',
                      isSelected = False, status = Adding\<rparr>]"]
    removeIteration_removes_matching
      [where ms = sampleModules and moduleId = "''em-1''" and iterationId = "''EM-1''"
         and i = 1]
  by (simp add: sampleModules_def removeIteration_def)

subsection \<open>Selection\<close>

text \<open>
  Claim C6. \<open>toggleSelection\<close> is its own inverse: applied twice with the same ids it restores
  the collection, hence the original \<open>isSelected\<close> of every iteration. On an iteration whose
  ids match it flips \<open>isSelected\<close>, with no condition on the module's \<open>isLocked\<close> or on the
  iteration's status.
\<close>

theorem handleToggleSelection_involution:
  "handleToggleSelection moduleId iterationId
     (handleToggleSelection moduleId iterationId ms) = ms \<and>
   (i < length ms \<and> id_mod (ms ! i) = moduleId \<and>
    j < length (iterations (ms ! i)) \<and> id_it (iterations (ms ! i) ! j) = iterationId \<longrightarrow>
      isSelected (iterations (handleToggleSelection moduleId iterationId ms ! i) ! j) =
        (\<not> isSelected (iterations (ms ! i) ! j)) \<and>
      isSelected (iterations (handleToggleSelection moduleId iterationId
                    (handleToggleSelection moduleId iterationId ms) ! i) ! j) =
        isSelected (iterations (ms ! i) ! j))"
  by (simp add: handleToggleSelection_twice handleToggleSelection_nth)

theorem handleToggleSelection_involution_witness:
  "0 < length sampleModules \<and> id_mod (sampleModules ! 0) = ''em-1'' \<and>
   1 < length (iterations (sampleModules ! 0)) \<and>
   id_it (iterations (sampleModules ! 0) ! 1) = ''EM-2'' \<and>
   isLocked (sampleModules ! 0) \<and> status (iterations (sampleModules ! 0) ! 1) = Adding \<and>
   \<not> isSelected (iterations (sampleModules ! 0) ! 1) \<and>
   isSelected (iterations (handleToggleSelection ''em-1'' ''EM-2'' sampleModules ! 0) ! 1) \<and>
   \<not> isSelected (iterations (handleToggleSelection ''em-1'' ''EM-2''
                    (handleToggleSelection ''em-1'' ''EM-2'' sampleModules) ! 0) ! 1)"
  using handleToggleSelection_involution
    [where ms = sampleModules and moduleId = "''em-1''" and iterationId = "''EM-2''"
       and i = 0 and j = 1]
  by (simp add: sampleModules_def)

subsection \<open>Reset\<close>

text \<open>
  Claim C7. \<open>resetModule\<close> clears \<open>isSelected\<close> on every iteration of the named module and
  changes nothing else: the number of modules, the module's id, title, \<open>isLocked\<close> and
  \<open>isExpanded\<close>, the number of its iterations and each iteration's status, title and id
  are kept, and every other module is unchanged. Applying it twice equals applying it once.
\<close>

theorem handleResetModule_frame:
  "length (handleResetModule moduleId ms) = length ms \<and>
   (i < length ms \<and> id_mod (ms ! i) \<noteq> moduleId \<longrightarrow>
      handleResetModule moduleId ms ! i = ms ! i) \<and>
   (i < length ms \<and> id_mod (ms ! i) = moduleId \<longrightarrow>
      id_mod (handleResetModule moduleId ms ! i) = id_mod (ms ! i) \<and>
      title_mod (handleResetModule moduleId ms ! i) = title_mod (ms ! i) \<and>
      isLocked (handleResetModule moduleId ms ! i) = isLocked (ms ! i) \<and>
      isExpanded (handleResetModule moduleId ms ! i) = isExpanded (ms ! i) \<and>
      length (iterations (handleResetModule moduleId ms ! i)) = length (iterations (ms ! i)) \<and>
      (j < length (iterations (ms ! i)) \<longrightarrow>
         \<not> isSelected (iterations (handleResetModule moduleId ms ! i) ! j) \<and>
         status (iterations (handleResetModule moduleId ms ! i) ! j) =
           status (iterations (ms ! i) ! j) \<and>
         title_it (iterations (handleResetModule moduleId ms ! i) ! j) =
           title_it (iterations (ms ! i) ! j) \<and>
         id_it (iterations (handleResetModule moduleId ms ! i) ! j) =
           id_it (iterations (ms ! i) ! j))) \<and>
   handleResetModule moduleId (handleResetModule moduleId ms) = handleResetModule moduleId ms"
  by (simp add: handleResetModule_twice handleResetModule_nth) (simp add: handleResetModule_def)

theorem handleResetModule_frame_witness:
  "0 < length sampleModules \<and> id_mod (sampleModules ! 0) = ''em-1'' \<and>
   0 < length (iterations (sampleModules ! 0)) \<and>
   isSelected (iterations (sampleModules ! 0) ! 0) \<and>
   \<not> isSelected (iterations (handleResetModule ''em-1'' sampleModules ! 0) ! 0) \<and>
   status (iterations (handleResetModule ''em-1'' sampleModules ! 0) ! 0) = Completed \<and>
   title_it (iterations (handleResetModule ''em-1'' sampleModules ! 0) ! 0) = ''First'' \<and>
   isLocked (handleResetModule ''em-1'' sampleModules ! 0) \<and>
   isExpanded (handleResetModule ''em-1'' sampleModules ! 0) \<and>
   1 < length sampleModules \<and> id_mod (sampleModules ! 1) \<noteq> ''em-1'' \<and>
   handleResetModule ''em-1'' sampleModules ! 1 = sampleModules ! 1"
  using handleResetModule_frame
      [where ms = sampleModules and moduleId = "''em-1''" and i = 0 and j = 0]
    handleResetModule_frame
      [where ms = sampleModules and moduleId = "''em-1''" and i = 1 and j = 0]
  by (simp add: sampleModules_def)

subsection \<open>Ids that match no record\<close>

text \<open>
  Claim C8. Every store operation is a total function without an error result: the source
  has no \<open>throw\<close>, reads a missing module only through \<^verbatim>\<open>?.\<close>, and each update is a
  \<^verbatim>\<open>map\<close> or \<^verbatim>\<open>filter\<close> over the collection, so the model needs no error value. Every
  operation that takes a module id returns the collection it was given when no module has
  that id, and every operation that takes an iteration id does so when no iteration of the
  named module has that id.
\<close>

theorem unmatched_ids_are_no_ops:
  "(moduleId \<notin> id_mod ` set ms \<longrightarrow>
      handleToggleExpand moduleId ms = ms \<and>
      handleToggleLock moduleId ms = ms \<and>
      handleLockModule moduleId ms = ms \<and>
      handleResetModule moduleId ms = ms \<and>
      handleToggleSelection moduleId iterationId ms = ms \<and>
      snd (beginAddIteration moduleId ms) = ms \<and>
      completeAddIteration moduleId iterationId prompt ms = ms \<and>
      removeIteration moduleId iterationId ms = ms) \<and>
   ((\<forall>m \<in> set ms. id_mod m = moduleId \<longrightarrow> iterationId \<notin> id_it ` set (iterations m)) \<longrightarrow>
      handleToggleSelection moduleId iterationId ms = ms \<and>
      completeAddIteration moduleId iterationId prompt ms = ms \<and>
      removeIteration moduleId iterationId ms = ms)"
  using missing_module_no_op [of moduleId ms]
    missing_iteration_no_op [of ms moduleId iterationId]
  by blast

theorem unmatched_ids_are_no_ops_witness:
  "''em-9'' \<notin> id_mod ` set sampleModules \<and>
   handleToggleExpand ''em-9'' sampleModules = sampleModules \<and>
   handleToggleLock ''em-9'' sampleModules = sampleModules \<and>
   handleLockModule ''em-9'' sampleModules = sampleModules \<and>
   handleResetModule ''em-9'' sampleModules = sampleModules \<and>
   handleToggleSelection ''em-9'' ''EM-1'' sampleModules = sampleModules \<and>
   snd (beginAddIteration ''em-9'' sampleModules) = sampleModules \<and>
   completeAddIteration ''em-9'' ''EM-1'' None sampleModules = sampleModules \<and>
   removeIteration ''em-9'' ''EM-1'' sampleModules = sampleModules \<and>
   \<not> list_ex (\<lambda>m. id_mod m = ''em-1'' \<and> ''EM-7'' \<in> id_it ` set (iterations m)) sampleModules \<and>
   handleToggleSelection ''em-1'' ''EM-7'' sampleModules = sampleModules \<and>
   completeAddIteration ''em-1'' ''EM-7'' None sampleModules = sampleModules \<and>
   removeIteration ''em-1'' ''EM-7'' sampleModules = sampleModules"
  using unmatched_ids_are_no_ops
      [where ms = sampleModules and moduleId = "''em-9''" and iterationId = "''EM-1''"
         and prompt = None]
    unmatched_ids_are_no_ops
      [where ms = sampleModules and moduleId = "''em-1''" and iterationId = "''EM-7''"
         and prompt = None]
  by (simp add: sampleModules_def)

subsection \<open>Iteration ids and removal\<close>




subsection \<open>The fallback title\<close>

text \<open>
  Claim C10. \<open>completeAddIteration\<close> gives a matching iteration the title "Iteration title"
  when no title is supplied and also when the supplied title is the empty string, so the
  title it sets is never empty, whatever is supplied. The add dialog hands over no title
  when its input consists of white space only, and never hands over an empty title.
\<close>

theorem completeAddIteration_title_never_empty:
  "(i < length ms \<and> id_mod (ms ! i) = moduleId \<and>
    j < length (iterations (ms ! i)) \<and> id_it (iterations (ms ! i) ! j) = iterationId \<longrightarrow>
      title_it (iterations (completeAddIteration moduleId iterationId None ms ! i) ! j) =
        ''Iteration title'' \<and>
      title_it (iterations (completeAddIteration moduleId iterationId (Some []) ms ! i) ! j) =
        ''Iteration title'' \<and>
      status (iterations (completeAddIteration moduleId iterationId prompt ms ! i) ! j) =
        Completed \<and>
      title_it (iterations (completeAddIteration moduleId iterationId prompt ms ! i) ! j) \<noteq> []) \<and>
   ((\<forall>c \<in> set typed. isWhiteSpace c) \<longrightarrow> handleSubmit showPromptInput typed = None) \<and>
   handleSubmit showPromptInput typed \<noteq> Some []"
  using trim_all_white [of typed] promptOrDefault_nonempty [of prompt]
    handleSubmit_nonempty [of showPromptInput typed]
  by (simp add: completeAddIteration_nth) (simp add: promptOrDefault_def handleSubmit_def)

theorem completeAddIteration_title_never_empty_witness:
  "0 < length sampleModules \<and> id_mod (sampleModules ! 0) = ''em-1'' \<and>
   1 < length (iterations (sampleModules ! 0)) \<and>
   id_it (iterations (sampleModules ! 0) ! 1) = ''EM-2'' \<and>
   list_all isWhiteSpace ''   '' \<and> handleSubmit True ''   '' = None \<and>
   title_it (iterations (completeAddIteration ''em-1'' ''EM-2'' None sampleModules ! 0) ! 1) =
     ''Iteration title'' \<and>
   title_it (iterations (completeAddIteration ''em-1'' ''EM-2'' (Some []) sampleModules ! 0) ! 1) =
     ''Iteration title'' \<and>
   title_it (iterations (completeAddIteration ''em-1'' ''EM-2'' (handleSubmit True ''   '')
                           sampleModules ! 0) ! 1) \<noteq> []"
  using completeAddIteration_title_never_empty
    [where ms = sampleModules and moduleId = "''em-1''" and iterationId = "''EM-2''"
       and i = 0 and j = 1 and prompt = "handleSubmit True ''   ''"
       and typed = "''   ''" and showPromptInput = True]
  by (simp add: sampleModules_def isWhiteSpace_def)

end
